theory Spec2Isabelle
  imports Complex_Main
begin

section \<open>JavaScript values\<close>

text \<open>
  The analyser is a browser script. Its numbers are JavaScript numbers: besides the
  ordinary (finite) values there are \<open>NaN\<close>, \<open>Infinity\<close> and \<open>-Infinity\<close>, and the
  comparisons and the arithmetic treat them specially. Finite values are taken as exact
  reals: rounding, overflow of finite arithmetic and the sign of zero are not modelled.
\<close>

datatype jsnum = NaN | NegInf | Fin real | PosInf

text \<open>
  A cell of a parsed row is a string (PapaParse is called with \<open>header: true\<close> and without
  dynamic typing), a missing field reads as \<open>undefined\<close>, and the cleaning step stores
  numbers.
\<close>

datatype jsval = Undefined | Null | Str string | Num jsnum

definition isNaN :: "jsnum \<Rightarrow> bool" where
  "isNaN v = (v = NaN)"

text \<open>\<open>a < b\<close>: false as soon as one side is \<open>NaN\<close>.\<close>

fun js_lt :: "jsnum \<Rightarrow> jsnum \<Rightarrow> bool" where
  "js_lt NaN b = False"
| "js_lt a NaN = False"
| "js_lt (Fin x) (Fin y) = (x < y)"
| "js_lt a NegInf = False"
| "js_lt NegInf b = True"
| "js_lt PosInf b = False"
| "js_lt (Fin x) PosInf = True"

definition js_gt :: "jsnum \<Rightarrow> jsnum \<Rightarrow> bool" where
  "js_gt a b = js_lt b a"

text \<open>\<open>a >= b\<close>: false on \<open>NaN\<close>, otherwise the negation of \<open>a < b\<close>.\<close>

definition js_ge :: "jsnum \<Rightarrow> jsnum \<Rightarrow> bool" where
  "js_ge a b = (a \<noteq> NaN \<and> b \<noteq> NaN \<and> \<not> js_lt a b)"

fun js_neg :: "jsnum \<Rightarrow> jsnum" where
  "js_neg NaN = NaN"
| "js_neg NegInf = PosInf"
| "js_neg (Fin x) = Fin (- x)"
| "js_neg PosInf = NegInf"

text \<open>\<open>a + b\<close>: the sum of opposite infinities is \<open>NaN\<close>.\<close>

fun js_add :: "jsnum \<Rightarrow> jsnum \<Rightarrow> jsnum" where
  "js_add NaN b = NaN"
| "js_add a NaN = NaN"
| "js_add (Fin x) (Fin y) = Fin (x + y)"
| "js_add PosInf NegInf = NaN"
| "js_add NegInf PosInf = NaN"
| "js_add PosInf b = PosInf"
| "js_add NegInf b = NegInf"
| "js_add (Fin x) b = b"

definition js_sub :: "jsnum \<Rightarrow> jsnum \<Rightarrow> jsnum" where
  "js_sub a b = js_add a (js_neg b)"

text \<open>The value of a number in a condition (\<open>x || y\<close>): \<open>0\<close> and \<open>NaN\<close> are falsy.\<close>

definition truthy :: "jsnum \<Rightarrow> bool" where
  "truthy v = (v \<noteq> NaN \<and> v \<noteq> Fin 0)"

subsection \<open>parseFloat\<close>

text \<open>
  \<open>parseFloat\<close> of the language: leading white space is skipped, then the longest prefix
  that is a decimal literal (sign, \<open>Infinity\<close>, or digits with an optional fraction and an
  optional exponent) is read; whatever follows is ignored; with no such prefix the result
  is \<open>NaN\<close>. Strings are taken as lists of 8-bit characters.
\<close>

definition isWhiteSpace :: "char \<Rightarrow> bool" where
  "isWhiteSpace c = (c = CHR '' '' \<or> c = CHR 0x09 \<or> c = CHR 0x0A \<or> c = CHR 0x0B
     \<or> c = CHR 0x0C \<or> c = CHR 0x0D)"

definition decimalDigits :: "(char \<times> nat) list" where
  "decimalDigits =
     [(CHR ''0'', 0), (CHR ''1'', 1), (CHR ''2'', 2), (CHR ''3'', 3), (CHR ''4'', 4),
      (CHR ''5'', 5), (CHR ''6'', 6), (CHR ''7'', 7), (CHR ''8'', 8), (CHR ''9'', 9)]"

definition digitValue :: "char \<Rightarrow> nat option" where
  "digitValue c = map_of decimalDigits c"

definition isDigit :: "char \<Rightarrow> bool" where
  "isDigit c = (digitValue c \<noteq> None)"

definition digitsValue :: "string \<Rightarrow> nat" where
  "digitsValue ds =
     foldl (\<lambda>acc c. 10 * acc + (case digitValue c of None \<Rightarrow> 0 | Some d \<Rightarrow> d)) 0 ds"

text \<open>The exponent part \<open>e\<close>/\<open>E\<close>, optional sign, at least one digit; \<open>0\<close> when absent.\<close>

definition exponentPart :: "string \<Rightarrow> int" where
  "exponentPart r =
     (case r of
        [] \<Rightarrow> 0
      | c # r' \<Rightarrow>
          if c = CHR ''e'' \<or> c = CHR ''E'' then
            (case r' of
               [] \<Rightarrow> 0
             | s # r'' \<Rightarrow>
                 if s = CHR ''-'' then
                   (if takeWhile isDigit r'' = [] then 0
                    else - int (digitsValue (takeWhile isDigit r'')))
                 else if s = CHR ''+'' then
                   (if takeWhile isDigit r'' = [] then 0
                    else int (digitsValue (takeWhile isDigit r'')))
                 else
                   (if takeWhile isDigit r' = [] then 0
                    else int (digitsValue (takeWhile isDigit r'))))
          else 0)"

definition unsignedDecimal :: "string \<Rightarrow> real option" where
  "unsignedDecimal u =
     (let ip = takeWhile isDigit u;
          r1 = dropWhile isDigit u;
          hasDot = (case r1 of [] \<Rightarrow> False | c # _ \<Rightarrow> c = CHR ''.'');
          fp = (if hasDot then takeWhile isDigit (tl r1) else []);
          r2 = (if hasDot then dropWhile isDigit (tl r1) else r1)
      in if ip = [] \<and> fp = [] then None
         else
           let m = real (digitsValue ip) + real (digitsValue fp) / 10 ^ length fp;
               e = exponentPart r2
           in Some (if 0 \<le> e then m * 10 ^ nat e else m / 10 ^ nat (- e)))"

definition parseFloatString :: "string \<Rightarrow> jsnum" where
  "parseFloatString s =
     (let t = dropWhile isWhiteSpace s;
          neg = (case t of [] \<Rightarrow> False | c # _ \<Rightarrow> c = CHR ''-'');
          u = (case t of [] \<Rightarrow> []
               | c # t' \<Rightarrow> if c = CHR ''-'' \<or> c = CHR ''+'' then t' else t)
      in if take 8 u = ''Infinity'' then (if neg then NegInf else PosInf)
         else (case unsignedDecimal u of
                 None \<Rightarrow> NaN
               | Some v \<Rightarrow> Fin (if neg then - v else v)))"

text \<open>
  The argument is converted to a string first: \<open>undefined\<close> and \<open>null\<close> give \<open>NaN\<close>, and
  a number is printed and read back, which returns it.
\<close>

fun parseFloat :: "jsval \<Rightarrow> jsnum" where
  "parseFloat Undefined = NaN"
| "parseFloat Null = NaN"
| "parseFloat (Str s) = parseFloatString s"
| "parseFloat (Num n) = n"

section \<open>Rows, the heap of row objects and the globals\<close>

text \<open>
  A row is an object: a map from column names to values, a missing property reading as
  \<open>undefined\<close>. Rows are shared by reference between the arrays that hold them
  (\<open>[...originalData]\<close> and \<open>filter\<close> copy the array, not the rows), so the rows live in a
  heap and an array is a list of addresses. The arrays themselves are never updated in
  place and are plain lists.
\<close>

type_synonym row = "string \<rightharpoonup> jsval"
type_synonym addr = nat

definition row_get :: "row \<Rightarrow> string \<Rightarrow> jsval" where
  "row_get r c = (case r c of None \<Rightarrow> Undefined | Some v \<Rightarrow> v)"

record app_state =
  heap :: "addr \<Rightarrow> row"
  originalData :: "addr list option"
  cleanedData :: "addr list option"
  isDataCleaned :: bool

section \<open>The cleaning step: cleanData\<close>

record dup_entry =
  dup_index :: nat
  dup_time :: jsval

text \<open>
  The \<open>reason\<close> of an outlier entry is one of three texts: not a number, too low
  (\<open>value < range[0]\<close>) or too high (\<open>value > range[1]\<close>).
\<close>

datatype outlier_reason = NotNumeric | TooLow | TooHigh

record outlier_entry =
  out_index :: nat
  out_column :: string
  out_value :: jsnum
  out_minRange :: real
  out_maxRange :: real
  out_reason :: outlier_reason

record cleaning_report =
  originalCount :: nat
  cleanedCount :: nat
  duplicatesRemoved :: "dup_entry list"
  outliersRemoved :: "outlier_entry list"
  baseAltitude :: jsnum

text \<open>
  Step 1, \<open>data.filter((row, index) => ...)\<close> with the \<open>timeMap\<close>: the argument \<open>index\<close> is
  the position of the row in the array being filtered. Every duplicate entry has the
  reason text \<open>Duplicado de tiempo\<close>, which is left out of the record. The keys of a
  \<open>Map\<close> are compared by SameValueZero, which on these values is equality.
\<close>

fun removeDuplicates ::
  "(addr \<Rightarrow> row) \<Rightarrow> (jsval \<rightharpoonup> bool) \<Rightarrow> nat \<Rightarrow> addr list \<Rightarrow> addr list \<times> dup_entry list" where
  "removeDuplicates h timeMap index [] = ([], [])"
| "removeDuplicates h timeMap index (a # rest) =
     (let time = row_get (h a) ''Tiempo_ms'' in
      if time \<in> dom timeMap then
        (let (kept, dups) = removeDuplicates h timeMap (index + 1) rest
         in (kept, \<lparr>dup_index = index, dup_time = time\<rparr> # dups))
      else
        (let (kept, dups) = removeDuplicates h (timeMap(time \<mapsto> True)) (index + 1) rest
         in (a # kept, dups)))"

definition physicalRanges :: "(string \<times> real \<times> real) list" where
  "physicalRanges =
     [(''Temperatura_C'', -50, 85),
      (''Presion_hPa'', 300, 1100),
      (''Humedad_%'', 0, 100),
      (''Accel_X_m_s2'', -160, 160),
      (''Accel_Y_m_s2'', -160, 160),
      (''Accel_Z_m_s2'', -160, 160),
      (''Gyro_X_deg_s'', -2000, 2000),
      (''Gyro_Y_deg_s'', -2000, 2000),
      (''Gyro_Z_deg_s'', -2000, 2000),
      (''Altitud_m'', -500, 100000)]"

text \<open>
  The \<open>for ... of Object.entries(physicalRanges)\<close> loop of the second filter on one row:
  the entry pushed for the first violating column, or \<open>None\<close> when the row passes.
\<close>

fun checkRanges :: "row \<Rightarrow> nat \<Rightarrow> (string \<times> real \<times> real) list \<Rightarrow> outlier_entry option" where
  "checkRanges r index [] = None"
| "checkRanges r index ((column, lo, hi) # rest) =
     (if row_get r column \<noteq> Undefined \<and> row_get r column \<noteq> Null then
        (let v = parseFloat (row_get r column) in
         if isNaN v \<or> js_lt v (Fin lo) \<or> js_gt v (Fin hi) then
           Some \<lparr>out_index = index, out_column = column, out_value = v,
                 out_minRange = lo, out_maxRange = hi,
                 out_reason = (if isNaN v then NotNumeric
                               else if js_lt v (Fin lo) then TooLow else TooHigh)\<rparr>
         else checkRanges r index rest)
      else checkRanges r index rest)"

text \<open>Step 2, the second \<open>data.filter((row, index) => ...)\<close>, on the rows step 1 kept.\<close>

fun filterRanges ::
  "(addr \<Rightarrow> row) \<Rightarrow> nat \<Rightarrow> addr list \<Rightarrow> addr list \<times> outlier_entry list" where
  "filterRanges h index [] = ([], [])"
| "filterRanges h index (a # rest) =
     (let (kept, outs) = filterRanges h (index + 1) rest in
      case checkRanges (h a) index physicalRanges of
        Some e \<Rightarrow> (kept, e # outs)
      | None \<Rightarrow> (a # kept, outs))"

text \<open>Step 3, \<open>data.forEach(row => ...)\<close>: the assignment writes into the row object.\<close>

fun adjustAltitude :: "jsnum \<Rightarrow> addr list \<Rightarrow> (addr \<Rightarrow> row) \<Rightarrow> (addr \<Rightarrow> row)" where
  "adjustAltitude base [] h = h"
| "adjustAltitude base (a # rest) h =
     adjustAltitude base rest
       (if row_get (h a) ''Altitud_m'' \<noteq> Undefined \<and> row_get (h a) ''Altitud_m'' \<noteq> Null
        then h(a := (h a)(''Altitud_m'' \<mapsto>
                 Num (js_sub (parseFloat (row_get (h a) ''Altitud_m'')) base)))
        else h)"

text \<open>
  \<open>parseFloat(document.getElementById('baseAltitude').value) || 571\<close>: the text of the
  input field, and 571 when it does not parse or parses to 0.
\<close>

definition baseAltitudeOf :: "string \<Rightarrow> jsnum" where
  "baseAltitudeOf input =
     (if truthy (parseFloat (Str input)) then parseFloat (Str input) else Fin 571)"

text \<open>
  \<open>cleanData\<close>. With no original data it alerts and returns: the state is unchanged and
  there is no report. Otherwise it stores the cleaned array and hands the counts and the
  two lists of entries to the display functions, which is the report returned here.
\<close>

definition cleanData :: "string \<Rightarrow> app_state \<Rightarrow> app_state \<times> cleaning_report option" where
  "cleanData input st =
     (case originalData st of
        None \<Rightarrow> (st, None)
      | Some orig \<Rightarrow>
          (let base = baseAltitudeOf input;
               (data1, dups) = removeDuplicates (heap st) Map.empty 0 orig;
               (data2, outs) = filterRanges (heap st) 0 data1;
               heap' = adjustAltitude base data2 (heap st)
           in (st\<lparr>heap := heap', cleanedData := Some data2, isDataCleaned := True\<rparr>,
               Some \<lparr>originalCount = length orig, cleanedCount = length data2,
                     duplicatesRemoved = dups, outliersRemoved = outs,
                     baseAltitude = base\<rparr>)))"

section \<open>The air quality classifier\<close>

text \<open>
  \<open>classifyAirQuality\<close>: the object with the five arrays, and the body of the
  \<open>forEach\<close> callback, which pushes the value on exactly one of them.
\<close>

record classification =
  excellent :: "jsnum list"
  good :: "jsnum list"
  moderate :: "jsnum list"
  poor :: "jsnum list"
  veryPoor :: "jsnum list"

definition classifyValue :: "classification \<Rightarrow> jsnum \<Rightarrow> classification" where
  "classifyValue c v =
     (if js_ge v (Fin 300) then c\<lparr>excellent := excellent c @ [v]\<rparr>
      else if js_ge v (Fin 200) then c\<lparr>good := good c @ [v]\<rparr>
      else if js_ge v (Fin 100) then c\<lparr>moderate := moderate c @ [v]\<rparr>
      else if js_ge v (Fin 50) then c\<lparr>poor := poor c @ [v]\<rparr>
      else c\<lparr>veryPoor := veryPoor c @ [v]\<rparr>)"

definition classifyAirQuality :: "jsnum list \<Rightarrow> classification" where
  "classifyAirQuality resistanceData =
     foldl classifyValue
       \<lparr>excellent = [], good = [], moderate = [], poor = [], veryPoor = []\<rparr>
       resistanceData"

text \<open>
  For the statements about the classifier: the finite values, and the sum of the sizes of
  the five tiers.
\<close>

fun isFinite :: "jsnum \<Rightarrow> bool" where
  "isFinite (Fin x) = True"
| "isFinite v = False"

definition tierSizes :: "classification \<Rightarrow> nat" where
  "tierSizes c = length (excellent c) + length (good c) + length (moderate c)
     + length (poor c) + length (veryPoor c)"

text \<open>
  The keys of the classification object, in the order \<open>Object.keys\<close> lists them (the
  order in which the object literal creates them), and \<open>qualityAnalysis[key]\<close>.
\<close>

datatype tier = Excellent | Good | Moderate | Poor | VeryPoor

fun members :: "classification \<Rightarrow> tier \<Rightarrow> jsnum list" where
  "members q Excellent = excellent q"
| "members q Good = good q"
| "members q Moderate = moderate q"
| "members q Poor = poor q"
| "members q VeryPoor = veryPoor q"

text \<open>The position of a key in that order.\<close>

fun tierPosition :: "tier \<Rightarrow> nat" where
  "tierPosition Excellent = 0"
| "tierPosition Good = 1"
| "tierPosition Moderate = 2"
| "tierPosition Poor = 3"
| "tierPosition VeryPoor = 4"

text \<open>
  The predominant quality of \<open>generateQualityMetrics\<close>:
  \<open>Object.keys(qualityAnalysis).reduce((a, b) => qualityAnalysis[a].length >
  qualityAnalysis[b].length ? a : b)\<close>. Without an initial value \<open>reduce\<close> starts from the
  first key and runs over the other four.
\<close>

definition predominantQuality :: "classification \<Rightarrow> tier" where
  "predominantQuality qualityAnalysis =
     foldl (\<lambda>a b. if length (members qualityAnalysis a) > length (members qualityAnalysis b)
                   then a else b)
       Excellent [Good, Moderate, Poor, VeryPoor]"

section \<open>The altitude profile: processAltitudeData with the interval all\<close>

record point =
  altitude :: jsnum
  resistance :: jsnum

text \<open>
  \<open>csvData.map(row => parseFloat(row[c])).filter(val => !isNaN(val))\<close>: the numeric
  readings of a column, the rows that do not parse being dropped. This is how the callers
  build \<open>resistanceData\<close> and how \<open>processAltitudeData\<close> builds \<open>altitudeData\<close>. The rows
  are only read here, so \<open>csvData\<close> is the list of the rows themselves.
\<close>

definition numericColumn :: "row list \<Rightarrow> string \<Rightarrow> jsnum list" where
  "numericColumn csvData c =
     filter (\<lambda>val. \<not> isNaN val) (map (\<lambda>r. parseFloat (row_get r c)) csvData)"

text \<open>
  The branch \<open>interval === 'all'\<close> of \<open>processAltitudeData\<close>. \<open>altitudeData[index]\<close> is
  \<open>undefined\<close> beyond the end of the array, and \<open>undefined || index\<close> is \<open>index\<close>.
\<close>

definition processAltitudeData_all :: "string list \<Rightarrow> row list \<Rightarrow> jsnum list \<Rightarrow> point list" where
  "processAltitudeData_all csvHeaders csvData resistanceData =
     (let altitudeData =
            (if ''Altitud_m'' \<in> set csvHeaders then numericColumn csvData ''Altitud_m''
             else replicate (length resistanceData) (Fin 0))
      in map (\<lambda>(r, index).
                \<lparr>altitude = (if index < length altitudeData \<and> truthy (altitudeData ! index)
                              then altitudeData ! index else Fin (real index)),
                 resistance = r\<rparr>)
           (zip resistanceData [0 ..< length resistanceData]))"

text \<open>
  The profile of a dataset, as \<open>updateAirQualityAnalysis\<close> computes it for the interval
  \<open>all\<close>: nothing without a resistance column, otherwise the numeric resistance readings
  handed to \<open>processAltitudeData\<close>.
\<close>

definition altitudeProfile_all :: "string list \<Rightarrow> row list \<Rightarrow> point list option" where
  "altitudeProfile_all csvHeaders csvData =
     (if ''Resistencia_kOhms'' \<notin> set csvHeaders then None
      else Some (processAltitudeData_all csvHeaders csvData
                   (numericColumn csvData ''Resistencia_kOhms'')))"

section \<open>Descriptive statistics: calculateStats\<close>

text \<open>
  Division of a number by the length of an array (a non-negative integer), \<open>Math.pow(x, 2)\<close>
  and \<open>Math.sqrt\<close>.
\<close>

fun js_div_len :: "jsnum \<Rightarrow> nat \<Rightarrow> jsnum" where
  "js_div_len NaN n = NaN"
| "js_div_len PosInf n = PosInf"
| "js_div_len NegInf n = NegInf"
| "js_div_len (Fin x) n =
     (if n = 0 then (if x = 0 then NaN else if 0 < x then PosInf else NegInf)
      else Fin (x / real n))"

fun js_pow2 :: "jsnum \<Rightarrow> jsnum" where
  "js_pow2 NaN = NaN"
| "js_pow2 (Fin x) = Fin (x ^ 2)"
| "js_pow2 PosInf = PosInf"
| "js_pow2 NegInf = PosInf"

fun js_sqrt :: "jsnum \<Rightarrow> jsnum" where
  "js_sqrt NaN = NaN"
| "js_sqrt NegInf = NaN"
| "js_sqrt PosInf = PosInf"
| "js_sqrt (Fin x) = (if x < 0 then NaN else Fin (sqrt x))"

text \<open>
  \<open>[...values].sort((a, b) => a - b)\<close>. The sort of the language is stable, and an element
  \<open>a\<close> moves behind \<open>b\<close> only when the comparator's result is positive; it is computed here
  by insertion. (With \<open>NaN\<close> among the values the comparator is not an order and the
  language leaves the result to the implementation.)
\<close>

fun insertNumeric :: "jsnum \<Rightarrow> jsnum list \<Rightarrow> jsnum list" where
  "insertNumeric a [] = [a]"
| "insertNumeric a (b # bs) =
     (if js_gt (js_sub a b) (Fin 0) then b # insertNumeric a bs else a # b # bs)"

definition sortNumeric :: "jsnum list \<Rightarrow> jsnum list" where
  "sortNumeric xs = foldr insertNumeric xs []"

text \<open>Reading an array at an index: \<open>undefined\<close> outside of it.\<close>

definition arrayAt :: "jsnum list \<Rightarrow> int \<Rightarrow> jsval" where
  "arrayAt xs i = (if 0 \<le> i \<and> i < int (length xs) then Num (xs ! nat i) else Undefined)"

record stats =
  stat_min :: jsval
  stat_max :: jsval
  mean :: jsnum
  median :: jsval
  stdDev :: jsnum

definition calculateStats :: "jsnum list \<Rightarrow> stats" where
  "calculateStats vals =
     (let sorted = sortNumeric vals;
          sum = foldl (\<lambda>acc val. js_add acc val) (Fin 0) vals;
          mean = js_div_len sum (length vals);
          variance = js_div_len
            (foldl (\<lambda>acc val. js_add acc (js_pow2 (js_sub val mean))) (Fin 0) vals)
            (length vals);
          stdDev = js_sqrt variance
      in \<lparr>stat_min = arrayAt sorted 0,
          stat_max = arrayAt sorted (int (length sorted) - 1),
          mean = mean,
          median = arrayAt sorted (int (length sorted div 2)),
          stdDev = stdDev\<rparr>)"

section \<open>Example datasets\<close>

text \<open>
  Four rows with \<open>Tiempo_ms\<close> 0, 100, 100, 200 and \<open>Temperatura_C\<close> 20, 21, 21, 999, at
  the addresses 0 to 3, freshly parsed and not yet cleaned.
\<close>

definition scenario_heap :: "addr \<Rightarrow> row" where
  "scenario_heap = (\<lambda>_. Map.empty)
     (0 := [''Tiempo_ms'' \<mapsto> Str ''0'', ''Temperatura_C'' \<mapsto> Str ''20''],
      1 := [''Tiempo_ms'' \<mapsto> Str ''100'', ''Temperatura_C'' \<mapsto> Str ''21''],
      2 := [''Tiempo_ms'' \<mapsto> Str ''100'', ''Temperatura_C'' \<mapsto> Str ''21''],
      3 := [''Tiempo_ms'' \<mapsto> Str ''200'', ''Temperatura_C'' \<mapsto> Str ''999''])"

definition scenario_state :: app_state where
  "scenario_state = \<lparr>heap = scenario_heap, originalData = Some [0, 1, 2, 3],
     cleanedData = None, isDataCleaned = False\<rparr>"

text \<open>The classification of the five readings 350, 250, 150, 75 and 10.\<close>

definition one_per_tier :: classification where
  "one_per_tier = \<lparr>excellent = [Fin 350], good = [Fin 250], moderate = [Fin 150],
     poor = [Fin 75], veryPoor = [Fin 10]\<rparr>"

text \<open>
  One row with the time 0 and the raw altitude 600, freshly parsed.
\<close>

definition altitude_heap :: "addr \<Rightarrow> row" where
  "altitude_heap = (\<lambda>_. Map.empty)
     (0 := [''Tiempo_ms'' \<mapsto> Str ''0'', ''Altitud_m'' \<mapsto> Str ''600''])"

definition altitude_state :: app_state where
  "altitude_state = \<lparr>heap = altitude_heap, originalData = Some [0],
     cleanedData = None, isDataCleaned = False\<rparr>"


text \<open>
  Datasets for the altitude profile: three rows with the altitudes 10, 0, 30 and the
  resistances 1, 2, 3; three rows in which one altitude and one resistance do not parse;
  two rows of a file without an altitude column.
\<close>

definition profile_headers :: "string list" where
  "profile_headers = [''Tiempo_ms'', ''Altitud_m'', ''Resistencia_kOhms'']"

definition profile_rows :: "row list" where
  "profile_rows =
     [[''Tiempo_ms'' \<mapsto> Str ''0'', ''Altitud_m'' \<mapsto> Str ''10'', ''Resistencia_kOhms'' \<mapsto> Str ''1''],
      [''Tiempo_ms'' \<mapsto> Str ''1'', ''Altitud_m'' \<mapsto> Str ''0'', ''Resistencia_kOhms'' \<mapsto> Str ''2''],
      [''Tiempo_ms'' \<mapsto> Str ''2'', ''Altitud_m'' \<mapsto> Str ''30'', ''Resistencia_kOhms'' \<mapsto> Str ''3'']]"

definition ragged_rows :: "row list" where
  "ragged_rows =
     [[''Tiempo_ms'' \<mapsto> Str ''0'', ''Altitud_m'' \<mapsto> Str ''abc'', ''Resistencia_kOhms'' \<mapsto> Str ''1''],
      [''Tiempo_ms'' \<mapsto> Str ''1'', ''Altitud_m'' \<mapsto> Str ''20'', ''Resistencia_kOhms'' \<mapsto> Str ''x''],
      [''Tiempo_ms'' \<mapsto> Str ''2'', ''Altitud_m'' \<mapsto> Str ''30'', ''Resistencia_kOhms'' \<mapsto> Str ''3'']]"

definition plain_headers :: "string list" where
  "plain_headers = [''Tiempo_ms'', ''Resistencia_kOhms'']"

definition plain_rows :: "row list" where
  "plain_rows =
     [[''Tiempo_ms'' \<mapsto> Str ''0'', ''Resistencia_kOhms'' \<mapsto> Str ''1''],
      [''Tiempo_ms'' \<mapsto> Str ''1'', ''Resistencia_kOhms'' \<mapsto> Str ''2'']]"

section \<open>Evaluating the definitions\<close>

lemmas parseFloat_eval = parseFloatString_def unsignedDecimal_def exponentPart_def
  digitsValue_def isDigit_def digitValue_def decimalDigits_def isWhiteSpace_def Let_def

section \<open>The counts of the cleaning report\<close>

lemma removeDuplicates_length:
  "removeDuplicates h m i as = (kept, dups) \<Longrightarrow> length kept + length dups = length as"
  by (induction as arbitrary: m i kept dups) (auto simp: Let_def split: prod.splits if_splits)

lemma filterRanges_length:
  "filterRanges h i as = (kept, outs) \<Longrightarrow> length kept + length outs = length as"
  by (induction as arbitrary: i kept outs) (auto simp: Let_def split: prod.splits option.splits)

text \<open>
  C1. Whenever there is an original dataset, \<open>cleanData\<close> returns a report, and in it the
  number of cleaned rows plus the number of duplicate entries plus the number of outlier
  entries is the number of original rows: the first filter either keeps a row or records
  one duplicate entry, and the second filter, run on what the first kept, either keeps a
  row or records one outlier entry.
\<close>

theorem cleanData_count_invariant:
  assumes "originalData st = Some orig"
  shows "\<exists>st' rep cleaned. cleanData input st = (st', Some rep)
           \<and> cleanedData st' = Some cleaned
           \<and> cleanedCount rep = length cleaned
           \<and> originalCount rep = length orig
           \<and> cleanedCount rep + length (duplicatesRemoved rep) + length (outliersRemoved rep)
               = originalCount rep"
proof -
  obtain data1 dups where d: "removeDuplicates (heap st) Map.empty 0 orig = (data1, dups)"
    by (cases "removeDuplicates (heap st) Map.empty 0 orig")
  obtain data2 outs where f: "filterRanges (heap st) 0 data1 = (data2, outs)"
    by (cases "filterRanges (heap st) 0 data1")
  from d have "length data1 + length dups = length orig" by (rule removeDuplicates_length)
  moreover from f have "length data2 + length outs = length data1" by (rule filterRanges_length)
  ultimately show ?thesis using assms d f by (simp add: cleanData_def Let_def)
qed

theorem cleanData_count_invariant_witness:
  "originalData scenario_state = Some [0, 1, 2, 3]
   \<and> (\<exists>st' rep cleaned. cleanData ''571'' scenario_state = (st', Some rep)
           \<and> cleanedData st' = Some cleaned
           \<and> cleanedCount rep = length cleaned
           \<and> originalCount rep = length [0, 1, 2, 3 :: nat]
           \<and> cleanedCount rep + length (duplicatesRemoved rep) + length (outliersRemoved rep)
               = originalCount rep)"
  using cleanData_count_invariant [of scenario_state "[0, 1, 2, 3]" "''571''"]
  by (simp add: scenario_state_def)

section \<open>The scenario of the four rows\<close>

lemma scenario_dedup:
  "removeDuplicates scenario_heap Map.empty 0 [0, 1, 2, 3]
     = ([0, 1, 3], [\<lparr>dup_index = 2, dup_time = Str ''100''\<rparr>])"
  by (simp add: scenario_heap_def row_get_def Let_def)

lemma scenario_filter:
  "filterRanges scenario_heap 0 [0, 1, 3]
     = ([0, 1], [\<lparr>out_index = 2, out_column = ''Temperatura_C'', out_value = Fin 999,
                 out_minRange = -50, out_maxRange = 85, out_reason = TooHigh\<rparr>])"
  by (simp add: scenario_heap_def row_get_def physicalRanges_def parseFloat_eval isNaN_def
        js_gt_def)

text \<open>
  C8. On the four rows with \<open>Tiempo_ms\<close> 0, 100, 100, 200 and \<open>Temperatura_C\<close> 20, 21, 21,
  999, \<open>cleanData\<close> records exactly one duplicate, the row at index 2 with the time 100
  (the first row with that time, at index 1, is kept); the range filter then removes
  exactly the row with the temperature 999, which is above the bound 85 of the range
  -50 to 85; the rows at the addresses 0 and 1 remain and the cleaned count is 2.
\<close>

theorem cleanData_scenario:
  "snd (cleanData '''' scenario_state)
     = Some \<lparr>originalCount = 4, cleanedCount = 2,
             duplicatesRemoved = [\<lparr>dup_index = 2, dup_time = Str ''100''\<rparr>],
             outliersRemoved = [\<lparr>out_index = 2, out_column = ''Temperatura_C'',
                 out_value = Fin 999, out_minRange = -50, out_maxRange = 85,
                 out_reason = TooHigh\<rparr>],
             baseAltitude = Fin 571\<rparr>
   \<and> cleanedData (fst (cleanData '''' scenario_state)) = Some [0, 1]"
proof -
  have o: "originalData scenario_state = Some [0, 1, 2, 3]"
    and h: "heap scenario_state = scenario_heap"
    by (simp_all add: scenario_state_def)
  have b: "baseAltitudeOf '''' = Fin 571"
    by (simp add: baseAltitudeOf_def truthy_def parseFloat_eval)
  show ?thesis
    unfolding cleanData_def o h b option.case Let_def scenario_dedup prod.case scenario_filter
    by simp
qed

section \<open>The classifier is a partition of its whole input\<close>

lemma classify_foldl:
  "foldl classifyValue c0 rd =
     \<lparr>excellent = excellent c0 @ filter (\<lambda>v. js_ge v (Fin 300)) rd,
      good = good c0 @ filter (\<lambda>v. \<not> js_ge v (Fin 300) \<and> js_ge v (Fin 200)) rd,
      moderate = moderate c0 @ filter (\<lambda>v. \<not> js_ge v (Fin 200) \<and> js_ge v (Fin 100)) rd,
      poor = poor c0 @ filter (\<lambda>v. \<not> js_ge v (Fin 100) \<and> js_ge v (Fin 50)) rd,
      veryPoor = veryPoor c0 @ filter (\<lambda>v. \<not> js_ge v (Fin 50)) rd\<rparr>"
proof (induction rd arbitrary: c0)
  case Nil
  show ?case by simp
next
  case (Cons v rd)
  have mono: "js_ge v (Fin 300) \<Longrightarrow> js_ge v (Fin 200)" "js_ge v (Fin 200) \<Longrightarrow> js_ge v (Fin 100)"
    "js_ge v (Fin 100) \<Longrightarrow> js_ge v (Fin 50)"
    by (cases v; simp add: js_ge_def)+
  show ?case
    unfolding foldl_Cons Cons.IH using mono by (auto simp: classifyValue_def)
qed

lemma tierSizes_foldl:
  "tierSizes (foldl classifyValue c0 rd) = tierSizes c0 + length rd"
  by (induction rd arbitrary: c0) (auto simp: classifyValue_def tierSizes_def)

text \<open>
  C3, as the code has it. \<open>classifyAirQuality\<close> has no test for negative or non-finite
  values: every value of the input, whatever it is, is pushed on exactly one tier. The
  values that are at least 300 (\<open>Infinity\<close> among them) are the excellent ones, those from
  200 up to 300 the good ones, from 100 up to 200 the moderate ones, from 50 up to 100 the
  poor ones, and every other value (below 50, negative, \<open>-Infinity\<close>, \<open>NaN\<close>) is very poor.
  Each tier keeps the input order, and the five sizes add up to the length of the input.
\<close>

theorem classify_partitions_input:
  "excellent (classifyAirQuality rd) = filter (\<lambda>v. js_ge v (Fin 300)) rd
   \<and> good (classifyAirQuality rd) = filter (\<lambda>v. \<not> js_ge v (Fin 300) \<and> js_ge v (Fin 200)) rd
   \<and> moderate (classifyAirQuality rd) = filter (\<lambda>v. \<not> js_ge v (Fin 200) \<and> js_ge v (Fin 100)) rd
   \<and> poor (classifyAirQuality rd) = filter (\<lambda>v. \<not> js_ge v (Fin 100) \<and> js_ge v (Fin 50)) rd
   \<and> veryPoor (classifyAirQuality rd) = filter (\<lambda>v. \<not> js_ge v (Fin 50)) rd
   \<and> tierSizes (classifyAirQuality rd) = length rd"
proof -
  have "tierSizes (classifyAirQuality rd) = length rd"
    unfolding classifyAirQuality_def tierSizes_foldl by (simp add: tierSizes_def)
  moreover have "classifyAirQuality rd =
     \<lparr>excellent = filter (\<lambda>v. js_ge v (Fin 300)) rd,
      good = filter (\<lambda>v. \<not> js_ge v (Fin 300) \<and> js_ge v (Fin 200)) rd,
      moderate = filter (\<lambda>v. \<not> js_ge v (Fin 200) \<and> js_ge v (Fin 100)) rd,
      poor = filter (\<lambda>v. \<not> js_ge v (Fin 100) \<and> js_ge v (Fin 50)) rd,
      veryPoor = filter (\<lambda>v. \<not> js_ge v (Fin 50)) rd\<rparr>"
    unfolding classifyAirQuality_def classify_foldl by simp
  ultimately show ?thesis by simp
qed

theorem classify_partitions_input_witness:
  "veryPoor (classifyAirQuality [Fin 350, Fin (-5), PosInf]) = [Fin (-5)]
   \<and> excellent (classifyAirQuality [Fin 350, Fin (-5), PosInf]) = [Fin 350, PosInf]
   \<and> tierSizes (classifyAirQuality [Fin 350, Fin (-5), PosInf]) = 3"
  using classify_partitions_input [of "[Fin 350, Fin (-5), PosInf]"]
  by (simp add: js_ge_def)

text \<open>
  The claim C3 as stated fails on the readings -5 and \<open>Infinity\<close>: the negative value is
  classified as very poor, \<open>Infinity\<close> as excellent, and the tier sizes add up to 2 while
  one value only is finite.
\<close>

theorem classify_excludes_nothing:
  "classifyAirQuality [Fin (-5), PosInf]
     = \<lparr>excellent = [PosInf], good = [], moderate = [], poor = [], veryPoor = [Fin (-5)]\<rparr>
   \<and> tierSizes (classifyAirQuality [Fin (-5), PosInf])
       \<noteq> length (filter isFinite [Fin (-5), PosInf])"
  by (simp add: classifyAirQuality_def classifyValue_def js_ge_def tierSizes_def)

section \<open>The predominant tier\<close>

text \<open>
  C4, as the code has it. The predominant tier has the largest member count, and among the
  tiers with that count it is the last one in the order excellent, good, moderate, poor,
  very poor: the reduction keeps its accumulator only when it is strictly larger. In
  particular the predominant tier is very poor when every tier has one member.
\<close>

theorem predominant_is_last_maximum:
  "length (members q t) \<le> length (members q (predominantQuality q))
   \<and> (length (members q t) = length (members q (predominantQuality q))
        \<longrightarrow> tierPosition t \<le> tierPosition (predominantQuality q))
   \<and> (length (excellent q) = 1 \<and> length (good q) = 1 \<and> length (moderate q) = 1
        \<and> length (poor q) = 1 \<and> length (veryPoor q) = 1
        \<longrightarrow> predominantQuality q = VeryPoor)"
  by (cases t) (auto simp: predominantQuality_def)

theorem predominant_is_last_maximum_witness:
  "length (excellent one_per_tier) = 1 \<and> length (good one_per_tier) = 1
   \<and> length (moderate one_per_tier) = 1 \<and> length (poor one_per_tier) = 1
   \<and> length (veryPoor one_per_tier) = 1
   \<and> predominantQuality one_per_tier = VeryPoor
   \<and> length (members one_per_tier Excellent)
       = length (members one_per_tier (predominantQuality one_per_tier))
   \<and> tierPosition Excellent \<le> tierPosition (predominantQuality one_per_tier)"
  using predominant_is_last_maximum [of one_per_tier Excellent]
  by (simp add: one_per_tier_def)

text \<open>
  The claim C4 as stated fails on the readings 350, 250, 150, 75, 10: they classify to one
  value in each tier, and the predominant tier is very poor, not excellent.
\<close>

theorem predominant_tie_not_first:
  "classifyAirQuality [Fin 350, Fin 250, Fin 150, Fin 75, Fin 10] = one_per_tier
   \<and> predominantQuality (classifyAirQuality [Fin 350, Fin 250, Fin 150, Fin 75, Fin 10])
       \<noteq> Excellent"
  by (simp add: classifyAirQuality_def classifyValue_def js_ge_def predominantQuality_def
        one_per_tier_def)

section \<open>What the two filters keep\<close>

lemma removeDuplicates_kept:
  "removeDuplicates h m i as = (kept, dups) \<Longrightarrow>
     distinct (map (\<lambda>a. row_get (h a) ''Tiempo_ms'') kept)
     \<and> (\<forall>a \<in> set kept. row_get (h a) ''Tiempo_ms'' \<notin> dom m)
     \<and> set kept \<subseteq> set as"
proof (induction as arbitrary: m i kept dups)
  case Nil
  then show ?case by simp
next
  case (Cons a rest m i kept dups)
  let ?t = "\<lambda>a. row_get (h a) ''Tiempo_ms''"
  show ?case
  proof (cases "?t a \<in> dom m")
    case True
    obtain k' d' where r: "removeDuplicates h m (i + 1) rest = (k', d')"
      by (cases "removeDuplicates h m (i + 1) rest")
    with True Cons.prems have "kept = k'" by (simp add: Let_def)
    with Cons.IH [OF r] show ?thesis by auto
  next
    case False
    obtain k' d' where
      r: "removeDuplicates h (m(?t a \<mapsto> True)) (i + 1) rest = (k', d')"
      by (cases "removeDuplicates h (m(?t a \<mapsto> True)) (i + 1) rest")
    with False Cons.prems have k: "kept = a # k'" by (simp add: Let_def)
    from Cons.IH [OF r] have d: "distinct (map ?t k')"
      and n: "\<forall>b \<in> set k'. ?t b \<noteq> ?t a \<and> ?t b \<notin> dom m"
      and s: "set k' \<subseteq> set rest"
      by (auto simp: domIff split: if_splits)
    from n have "?t a \<notin> ?t ` set k'" by auto
    with d n s False show ?thesis unfolding k by auto
  qed
qed

lemma removeDuplicates_distinct:
  assumes "removeDuplicates h m i as = (kept, dups)"
  shows "distinct kept"
  using removeDuplicates_kept [OF assms] by (auto simp: distinct_map)

lemma filterRanges_kept:
  "filterRanges h i as = (kept, outs) \<Longrightarrow> distinct as \<Longrightarrow>
     distinct kept \<and> set kept \<subseteq> set as
     \<and> (\<forall>a \<in> set kept. \<exists>j. checkRanges (h a) j physicalRanges = None)"
proof (induction as arbitrary: i kept outs)
  case Nil
  then show ?case by simp
next
  case (Cons a rest i kept outs)
  obtain k' o' where r: "filterRanges h (i + 1) rest = (k', o')"
    by (cases "filterRanges h (i + 1) rest")
  from Cons.prems have d: "distinct rest" and na: "a \<notin> set rest" by simp_all
  note IH = Cons.IH [OF r d]
  show ?case
  proof (cases "checkRanges (h a) i physicalRanges")
    case None
    with r Cons.prems have "kept = a # k'" by simp
    with IH na None show ?thesis by auto
  next
    case (Some e)
    with r Cons.prems have "kept = k'" by simp
    with IH show ?thesis by auto
  qed
qed

lemma checkRanges_None:
  "checkRanges r j rs = None \<Longrightarrow> (c, lo, hi) \<in> set rs \<Longrightarrow>
   row_get r c \<noteq> Undefined \<Longrightarrow> row_get r c \<noteq> Null \<Longrightarrow>
   \<not> isNaN (parseFloat (row_get r c)) \<and> \<not> js_lt (parseFloat (row_get r c)) (Fin lo)
     \<and> \<not> js_gt (parseFloat (row_get r c)) (Fin hi)"
  by (induction r j rs rule: checkRanges.induct) (auto simp: Let_def split: if_splits)

lemma in_range_finite:
  "\<not> isNaN v \<Longrightarrow> \<not> js_lt v (Fin lo) \<Longrightarrow> \<not> js_gt v (Fin hi) \<Longrightarrow>
     \<exists>x. v = Fin x \<and> lo \<le> x \<and> x \<le> hi"
  by (cases v) (auto simp: isNaN_def js_gt_def)

lemma adjustAltitude_distinct:
  "distinct as \<Longrightarrow>
   adjustAltitude base as h a =
     (if a \<in> set as \<and> row_get (h a) ''Altitud_m'' \<noteq> Undefined
         \<and> row_get (h a) ''Altitud_m'' \<noteq> Null
      then (h a)(''Altitud_m'' \<mapsto> Num (js_sub (parseFloat (row_get (h a) ''Altitud_m'')) base))
      else h a)"
  by (induction as arbitrary: h) auto

section \<open>The altitude correction\<close>

text \<open>
  C7, as the code has it. Take a row that survives duplicate removal and range filtering
  and whose altitude field holds the text as parsed, a string \<open>s\<close>. The range filter has
  let it pass, so \<open>s\<close> parses to a finite number \<open>x\<close>, and after \<open>cleanData\<close> the altitude field
  of the row holds the number \<open>x - baseAltitude\<close>. The base altitude is the supplied value,
  the parsed text of the input field, when that is a number other than 0; it is 571 when
  nothing is supplied (the text does not parse) and also when the supplied value is 0. It
  is the base altitude passed on to the report. For the base altitude 571 and the raw
  altitude 600 the result is 29.
\<close>

theorem cleanData_altitude_correction:
  assumes o: "originalData st = Some orig"
    and c: "cleanData input st = (st', rep)"
    and cl: "cleanedData st' = Some cleaned"
    and a: "a \<in> set cleaned"
    and p: "row_get (heap st a) ''Altitud_m'' = Str s"
  shows "(\<exists>x. parseFloat (Str s) = Fin x
            \<and> row_get (heap st' a) ''Altitud_m''
                = Num (js_sub (Fin x) (baseAltitudeOf input))
            \<and> (x = 600 \<and> baseAltitudeOf input = Fin 571
                 \<longrightarrow> row_get (heap st' a) ''Altitud_m'' = Num (Fin 29)))
         \<and> baseAltitudeOf input
             = (if parseFloat (Str input) = NaN \<or> parseFloat (Str input) = Fin 0
                then Fin 571 else parseFloat (Str input))
         \<and> map_option baseAltitude rep = Some (baseAltitudeOf input)"
proof -
  obtain data1 dups where d: "removeDuplicates (heap st) Map.empty 0 orig = (data1, dups)"
    by (cases "removeDuplicates (heap st) Map.empty 0 orig")
  obtain data2 outs where f: "filterRanges (heap st) 0 data1 = (data2, outs)"
    by (cases "filterRanges (heap st) 0 data1")
  from o c d f have st': "heap st' = adjustAltitude (baseAltitudeOf input) data2 (heap st)"
    and "cleanedData st' = Some data2"
    and rep: "map_option baseAltitude rep = Some (baseAltitudeOf input)"
    by (auto simp: cleanData_def Let_def)
  with cl have cleaned: "cleaned = data2" by simp
  from p have p': "row_get (heap st a) ''Altitud_m'' \<noteq> Undefined"
    "row_get (heap st a) ''Altitud_m'' \<noteq> Null"
    by simp_all
  from d have "distinct data1" by (rule removeDuplicates_distinct)
  with f have dist: "distinct data2"
    and ok: "\<forall>a \<in> set data2. \<exists>j. checkRanges (heap st a) j physicalRanges = None"
    using filterRanges_kept by blast+
  from ok a cleaned obtain j where "checkRanges (heap st a) j physicalRanges = None" by blast
  moreover have "(''Altitud_m'', -500, 100000) \<in> set physicalRanges"
    by (simp add: physicalRanges_def)
  ultimately have "\<not> isNaN (parseFloat (row_get (heap st a) ''Altitud_m''))
      \<and> \<not> js_lt (parseFloat (row_get (heap st a) ''Altitud_m'')) (Fin (-500))
      \<and> \<not> js_gt (parseFloat (row_get (heap st a) ''Altitud_m'')) (Fin 100000)"
    using p' by (rule checkRanges_None)
  then obtain x where "parseFloat (row_get (heap st a) ''Altitud_m'') = Fin x"
    using in_range_finite by blast
  then have x: "parseFloat (Str s) = Fin x" unfolding p .
  have "heap st' a = (heap st a)(''Altitud_m'' \<mapsto>
      Num (js_sub (parseFloat (row_get (heap st a) ''Altitud_m'')) (baseAltitudeOf input)))"
    unfolding st' using a cleaned p' by (simp add: adjustAltitude_distinct [OF dist])
  then have "row_get (heap st' a) ''Altitud_m''
      = Num (js_sub (parseFloat (row_get (heap st a) ''Altitud_m'')) (baseAltitudeOf input))"
    by (simp add: row_get_def)
  then have r: "row_get (heap st' a) ''Altitud_m'' = Num (js_sub (Fin x) (baseAltitudeOf input))"
    unfolding p x .
  have b: "baseAltitudeOf input
             = (if parseFloat (Str input) = NaN \<or> parseFloat (Str input) = Fin 0
                then Fin 571 else parseFloat (Str input))"
    by (simp add: baseAltitudeOf_def truthy_def)
  from x r have "\<exists>x. parseFloat (Str s) = Fin x
            \<and> row_get (heap st' a) ''Altitud_m''
                = Num (js_sub (Fin x) (baseAltitudeOf input))
            \<and> (x = 600 \<and> baseAltitudeOf input = Fin 571
                 \<longrightarrow> row_get (heap st' a) ''Altitud_m'' = Num (Fin 29))"
    by (auto simp: js_sub_def)
  with b rep show ?thesis by blast
qed

lemma altitude_state_cleaned:
  "cleanedData (fst (cleanData '''' altitude_state)) = Some [0]"
  "originalData (fst (cleanData '''' altitude_state)) = Some [0]"
  "heap (fst (cleanData '''' altitude_state)) 0
     = [''Tiempo_ms'' \<mapsto> Str ''0'', ''Altitud_m'' \<mapsto> Num (Fin 29)]"
proof -
  have o: "originalData altitude_state = Some [0]"
    and h: "heap altitude_state = altitude_heap"
    by (simp_all add: altitude_state_def)
  have b: "baseAltitudeOf '''' = Fin 571"
    by (simp add: baseAltitudeOf_def truthy_def parseFloat_eval)
  have d: "removeDuplicates altitude_heap Map.empty 0 [0] = ([0], [])"
    by (simp add: altitude_heap_def row_get_def Let_def)
  have f: "filterRanges altitude_heap 0 [0] = ([0], [])"
    by (simp add: altitude_heap_def row_get_def physicalRanges_def parseFloat_eval isNaN_def
        js_gt_def)
  have a: "adjustAltitude (Fin 571) [0] altitude_heap 0
      = [''Tiempo_ms'' \<mapsto> Str ''0'', ''Altitud_m'' \<mapsto> Num (Fin 29)]"
    by (simp add: altitude_heap_def row_get_def parseFloat_eval js_sub_def)
  show "cleanedData (fst (cleanData '''' altitude_state)) = Some [0]"
    unfolding cleanData_def o h b option.case Let_def d prod.case f by simp
  show "originalData (fst (cleanData '''' altitude_state)) = Some [0]"
    unfolding cleanData_def o h b option.case Let_def d prod.case f by (simp add: o)
  show "heap (fst (cleanData '''' altitude_state)) 0
     = [''Tiempo_ms'' \<mapsto> Str ''0'', ''Altitud_m'' \<mapsto> Num (Fin 29)]"
  proof -
    have "heap (fst (cleanData '''' altitude_state)) = adjustAltitude (Fin 571) [0] altitude_heap"
      unfolding cleanData_def o h b option.case Let_def d prod.case f by simp
    then show ?thesis by (simp only: a)
  qed
qed

lemma altitude_state_any_input:
  "cleanedData (fst (cleanData input altitude_state)) = Some [0]"
  "row_get (heap (fst (cleanData input altitude_state)) 0) ''Altitud_m''
     = Num (js_sub (Fin 600) (baseAltitudeOf input))"
proof -
  have o: "originalData altitude_state = Some [0]"
    and h: "heap altitude_state = altitude_heap"
    by (simp_all add: altitude_state_def)
  have d: "removeDuplicates altitude_heap Map.empty 0 [0] = ([0], [])"
    by (simp add: altitude_heap_def row_get_def Let_def)
  have f: "filterRanges altitude_heap 0 [0] = ([0], [])"
    by (simp add: altitude_heap_def row_get_def physicalRanges_def parseFloat_eval isNaN_def
        js_gt_def)
  have a: "row_get (adjustAltitude b [0] altitude_heap 0) ''Altitud_m''
      = Num (js_sub (Fin 600) b)" for b
    by (simp add: altitude_heap_def row_get_def parseFloat_eval)
  show "cleanedData (fst (cleanData input altitude_state)) = Some [0]"
    unfolding cleanData_def o h option.case Let_def d prod.case f by simp
  have "heap (fst (cleanData input altitude_state))
      = adjustAltitude (baseAltitudeOf input) [0] altitude_heap"
    unfolding cleanData_def o h option.case Let_def d prod.case f by simp
  then show "row_get (heap (fst (cleanData input altitude_state)) 0) ''Altitud_m''
     = Num (js_sub (Fin 600) (baseAltitudeOf input))"
    by (simp only: a)
qed

theorem cleanData_altitude_correction_witness:
  "originalData altitude_state = Some [0]
   \<and> row_get (heap altitude_state 0) ''Altitud_m'' = Str ''600''
   \<and> parseFloat (Str ''600'') = Fin 600
   \<and> cleanedData (fst (cleanData ''100'' altitude_state)) = Some [0]
   \<and> parseFloat (Str ''100'') = Fin 100
   \<and> baseAltitudeOf ''100'' = Fin 100
   \<and> row_get (heap (fst (cleanData ''100'' altitude_state)) 0) ''Altitud_m'' = Num (Fin 500)
   \<and> cleanedData (fst (cleanData '''' altitude_state)) = Some [0]
   \<and> parseFloat (Str '''') = NaN
   \<and> baseAltitudeOf '''' = Fin 571
   \<and> row_get (heap (fst (cleanData '''' altitude_state)) 0) ''Altitud_m'' = Num (Fin 29)"
proof -
  have o: "originalData altitude_state = Some [0]"
    and p: "row_get (heap altitude_state 0) ''Altitud_m'' = Str ''600''"
    by (simp_all add: altitude_state_def altitude_heap_def row_get_def)
  have m: "(0::addr) \<in> set [0]" by simp
  have s: "parseFloat (Str ''600'') = Fin 600"
    and i1: "parseFloat (Str ''100'') = Fin 100"
    and i2: "parseFloat (Str '''') = NaN"
    by (simp_all add: parseFloat_eval)
  have c1: "cleanData ''100'' altitude_state
      = (fst (cleanData ''100'' altitude_state), snd (cleanData ''100'' altitude_state))"
    and c2: "cleanData '''' altitude_state
      = (fst (cleanData '''' altitude_state), snd (cleanData '''' altitude_state))"
    by simp_all
  note k1 = altitude_state_any_input(1) [of "''100''"]
  note k2 = altitude_state_any_input(1) [of "''''"]
  from cleanData_altitude_correction [OF o c1 k1 m p]
  obtain x where "parseFloat (Str ''600'') = Fin x"
    and r1: "row_get (heap (fst (cleanData ''100'' altitude_state)) 0) ''Altitud_m''
        = Num (js_sub (Fin x) (baseAltitudeOf ''100''))"
    and b1: "baseAltitudeOf ''100''
        = (if parseFloat (Str ''100'') = NaN \<or> parseFloat (Str ''100'') = Fin 0
           then Fin 571 else parseFloat (Str ''100''))"
    by blast
  with s have x: "x = 600" by simp
  from b1 i1 have b1': "baseAltitudeOf ''100'' = Fin 100" by simp
  from r1 x b1' have r1': "row_get (heap (fst (cleanData ''100'' altitude_state)) 0) ''Altitud_m''
      = Num (Fin 500)"
    by (simp add: js_sub_def)
  from cleanData_altitude_correction [OF o c2 k2 m p]
  obtain y where "parseFloat (Str ''600'') = Fin y"
    and r2: "y = 600 \<and> baseAltitudeOf '''' = Fin 571
        \<longrightarrow> row_get (heap (fst (cleanData '''' altitude_state)) 0) ''Altitud_m'' = Num (Fin 29)"
    and b2: "baseAltitudeOf ''''
        = (if parseFloat (Str '''') = NaN \<or> parseFloat (Str '''') = Fin 0
           then Fin 571 else parseFloat (Str ''''))"
    by blast
  with s have y: "y = 600" by simp
  from b2 i2 have b2': "baseAltitudeOf '''' = Fin 571" by simp
  from r2 y b2' have r2': "row_get (heap (fst (cleanData '''' altitude_state)) 0) ''Altitud_m''
      = Num (Fin 29)"
    by simp
  from o p s k1 i1 b1' r1' k2 i2 b2' r2' show ?thesis by simp
qed

text \<open>
  The claim C7 as stated fails for the supplied base altitude 0: \<open>0 || 571\<close> is 571, so the
  row with the raw altitude 600 gets the altitude 29 and not 600 - 0.
\<close>

theorem cleanData_zero_base_altitude:
  "parseFloat (Str ''0'') = Fin 0
   \<and> row_get (heap altitude_state 0) ''Altitud_m'' = Str ''600''
   \<and> parseFloat (Str ''600'') = Fin 600
   \<and> cleanedData (fst (cleanData ''0'' altitude_state)) = Some [0]
   \<and> row_get (heap (fst (cleanData ''0'' altitude_state)) 0) ''Altitud_m'' = Num (Fin 29)
   \<and> row_get (heap (fst (cleanData ''0'' altitude_state)) 0) ''Altitud_m''
       \<noteq> Num (js_sub (Fin 600) (Fin 0))"
proof -
  have z: "parseFloat (Str ''0'') = Fin 0" and s: "parseFloat (Str ''600'') = Fin 600"
    by (simp_all add: parseFloat_eval)
  have b: "baseAltitudeOf ''0'' = Fin 571"
    by (simp add: baseAltitudeOf_def truthy_def parseFloat_eval)
  have p: "row_get (heap altitude_state 0) ''Altitud_m'' = Str ''600''"
    by (simp add: altitude_state_def altitude_heap_def row_get_def)
  have r: "row_get (heap (fst (cleanData ''0'' altitude_state)) 0) ''Altitud_m'' = Num (Fin 29)"
    by (simp add: altitude_state_any_input(2) b js_sub_def)
  from z s p r altitude_state_any_input(1) [of "''0''"] show ?thesis
    by (simp add: js_sub_def)
qed

section \<open>The original rows after cleaning\<close>

text \<open>
  C2 does not hold of the code. The comment in \<open>cleanData\<close> announces a copy of the
  original data, but \<open>[...originalData]\<close> copies the array only: the cleaned array holds
  the very row objects of the original one, and the altitude assignment of step 3 writes
  into them. On the dataset of one row with the raw altitude \<open>'600'\<close>, the original array
  is the same after \<open>cleanData\<close>, and the altitude read through it is the number 29.
\<close>

theorem cleanData_overwrites_original:
  "originalData altitude_state = Some [0]
   \<and> row_get (heap altitude_state 0) ''Altitud_m'' = Str ''600''
   \<and> originalData (fst (cleanData '''' altitude_state)) = Some [0]
   \<and> row_get (heap (fst (cleanData '''' altitude_state)) 0) ''Altitud_m'' = Num (Fin 29)"
  by (simp add: altitude_state_cleaned row_get_def)
    (simp add: altitude_state_def altitude_heap_def)

section \<open>Rows without a time field\<close>






section \<open>The index of an outlier entry\<close>

text \<open>
  C6 does not hold of the code. The second filter runs on the array the first filter
  returned, and the \<open>index\<close> it records is the position in that array. In the scenario of
  the four rows the row with the temperature 999 is the row at index 3 of the dataset as
  parsed; the outlier entry for it carries the index 2, which in the dataset as parsed is
  the dropped duplicate with the temperature 21. (The duplicate entries, recorded by the
  first filter, do carry the indices of the dataset as parsed.)
\<close>

theorem outlier_index_is_intermediate:
  "originalData scenario_state = Some [0, 1, 2, 3]
   \<and> row_get (heap scenario_state ([0, 1, 2, 3] ! 2)) ''Temperatura_C'' = Str ''21''
   \<and> row_get (heap scenario_state ([0, 1, 2, 3] ! 3)) ''Temperatura_C'' = Str ''999''
   \<and> map_option (\<lambda>rep. map (\<lambda>e. (out_index e, out_column e, out_value e)) (outliersRemoved rep))
        (snd (cleanData '''' scenario_state))
       = Some [(2, ''Temperatura_C'', Fin 999)]"
proof -
  have o: "originalData scenario_state = Some [0, 1, 2, 3]"
    and h: "heap scenario_state = scenario_heap"
    by (simp_all add: scenario_state_def)
  have "map_option (\<lambda>rep. map (\<lambda>e. (out_index e, out_column e, out_value e)) (outliersRemoved rep))
        (snd (cleanData '''' scenario_state))
       = Some [(2, ''Temperatura_C'', Fin 999)]"
    unfolding cleanData_def o h option.case Let_def scenario_dedup prod.case scenario_filter
    by simp
  moreover have "row_get (scenario_heap 2) ''Temperatura_C'' = Str ''21''"
    "row_get (scenario_heap 3) ''Temperatura_C'' = Str ''999''"
    by (simp_all add: scenario_heap_def row_get_def)
  ultimately show ?thesis using o h by simp
qed

section \<open>The altitude profile of all readings\<close>

lemma numericColumn_all:
  "\<forall>r \<in> set csvData. \<not> isNaN (parseFloat (row_get r c)) \<Longrightarrow>
     numericColumn csvData c = map (\<lambda>r. parseFloat (row_get r c)) csvData"
  by (simp add: numericColumn_def)

lemma processAltitudeData_all_nth:
  assumes "i < length resistanceData"
  shows "processAltitudeData_all csvHeaders csvData resistanceData ! i =
     \<lparr>altitude =
        (let altitudeData =
           (if ''Altitud_m'' \<in> set csvHeaders then numericColumn csvData ''Altitud_m''
            else replicate (length resistanceData) (Fin 0))
         in if i < length altitudeData \<and> truthy (altitudeData ! i)
            then altitudeData ! i else Fin (real i)),
      resistance = resistanceData ! i\<rparr>"
  using assms by (simp add: processAltitudeData_all_def Let_def)

text \<open>
  C5, as the code has it. Take a dataset whose header list contains the resistance column
  and in which the resistance of every row parses as a number. Then the profile for the
  interval \<open>all\<close> has one pair per row, in row order, the pair of a row carrying the
  resistance of that row. If the header list has no altitude column, the altitude of the
  pair is the ordinal index of the row. If it has one and the altitude of every row parses
  as a number, the altitude of the pair is the altitude of its row, except that a row
  whose altitude is 0 gets its ordinal index: \<open>altitudeData[index] || index\<close> takes 0 for
  a missing value, just as it does for the zeros that stand in for a missing column.
\<close>

theorem profile_all_numeric_rows:
  assumes hr: "''Resistencia_kOhms'' \<in> set csvHeaders"
    and nr: "\<forall>r \<in> set csvData. \<not> isNaN (parseFloat (row_get r ''Resistencia_kOhms''))"
  shows "\<exists>ps. altitudeProfile_all csvHeaders csvData = Some ps
           \<and> length ps = length csvData
           \<and> (\<forall>i<length csvData.
                 resistance (ps ! i) = parseFloat (row_get (csvData ! i) ''Resistencia_kOhms'')
                 \<and> (''Altitud_m'' \<notin> set csvHeaders \<longrightarrow> altitude (ps ! i) = Fin (real i))
                 \<and> (''Altitud_m'' \<in> set csvHeaders
                      \<and> (\<forall>r \<in> set csvData. \<not> isNaN (parseFloat (row_get r ''Altitud_m'')))
                    \<longrightarrow> altitude (ps ! i)
                         = (if parseFloat (row_get (csvData ! i) ''Altitud_m'') = Fin 0
                            then Fin (real i)
                            else parseFloat (row_get (csvData ! i) ''Altitud_m''))))"
proof -
  let ?rd = "map (\<lambda>r. parseFloat (row_get r ''Resistencia_kOhms'')) csvData"
  let ?ps = "processAltitudeData_all csvHeaders csvData ?rd"
  have rd: "numericColumn csvData ''Resistencia_kOhms'' = ?rd"
    using nr by (rule numericColumn_all)
  have p: "altitudeProfile_all csvHeaders csvData = Some ?ps"
    using hr by (simp add: altitudeProfile_all_def rd)
  have l: "length ?ps = length csvData"
    by (simp add: processAltitudeData_all_def Let_def)
  have "resistance (?ps ! i) = parseFloat (row_get (csvData ! i) ''Resistencia_kOhms'')
        \<and> (''Altitud_m'' \<notin> set csvHeaders \<longrightarrow> altitude (?ps ! i) = Fin (real i))
        \<and> (''Altitud_m'' \<in> set csvHeaders
              \<and> (\<forall>r \<in> set csvData. \<not> isNaN (parseFloat (row_get r ''Altitud_m'')))
            \<longrightarrow> altitude (?ps ! i)
                 = (if parseFloat (row_get (csvData ! i) ''Altitud_m'') = Fin 0
                    then Fin (real i)
                    else parseFloat (row_get (csvData ! i) ''Altitud_m'')))"
    if i: "i < length csvData" for i
  proof -
    from i have i': "i < length ?rd" by simp
    note n = processAltitudeData_all_nth [OF i', of csvHeaders csvData]
    have 1: "resistance (?ps ! i) = parseFloat (row_get (csvData ! i) ''Resistencia_kOhms'')"
      unfolding n using i by simp
    have 2: "altitude (?ps ! i) = Fin (real i)" if "''Altitud_m'' \<notin> set csvHeaders"
      unfolding n using that i by (simp add: truthy_def)
    have 3: "altitude (?ps ! i)
                 = (if parseFloat (row_get (csvData ! i) ''Altitud_m'') = Fin 0
                    then Fin (real i)
                    else parseFloat (row_get (csvData ! i) ''Altitud_m''))"
      if h: "''Altitud_m'' \<in> set csvHeaders"
        and a: "\<forall>r \<in> set csvData. \<not> isNaN (parseFloat (row_get r ''Altitud_m''))"
    proof -
      from a i have "parseFloat (row_get (csvData ! i) ''Altitud_m'') \<noteq> NaN"
        by (simp add: isNaN_def)
      then show ?thesis
        unfolding n using h i by (simp add: numericColumn_all [OF a] truthy_def)
    qed
    from 1 2 3 show ?thesis by blast
  qed
  with p l show ?thesis by blast
qed

lemma profile_rows_eval:
  "altitudeProfile_all profile_headers profile_rows
     = Some [\<lparr>altitude = Fin 10, resistance = Fin 1\<rparr>,
             \<lparr>altitude = Fin 1, resistance = Fin 2\<rparr>,
             \<lparr>altitude = Fin 30, resistance = Fin 3\<rparr>]"
  by (simp add: altitudeProfile_all_def processAltitudeData_all_def numericColumn_def
        profile_headers_def profile_rows_def row_get_def isNaN_def truthy_def parseFloat_eval
        upt_rec [of 0])

lemma ragged_rows_eval:
  "altitudeProfile_all profile_headers ragged_rows
     = Some [\<lparr>altitude = Fin 20, resistance = Fin 1\<rparr>,
             \<lparr>altitude = Fin 30, resistance = Fin 3\<rparr>]"
  by (simp add: altitudeProfile_all_def processAltitudeData_all_def numericColumn_def
        profile_headers_def ragged_rows_def row_get_def isNaN_def truthy_def parseFloat_eval
        upt_rec [of 0])

lemma plain_rows_eval:
  "altitudeProfile_all plain_headers plain_rows
     = Some [\<lparr>altitude = Fin 0, resistance = Fin 1\<rparr>,
             \<lparr>altitude = Fin 1, resistance = Fin 2\<rparr>]"
  by (simp add: altitudeProfile_all_def processAltitudeData_all_def numericColumn_def
        plain_headers_def plain_rows_def row_get_def isNaN_def truthy_def parseFloat_eval
        upt_rec [of 0])

theorem profile_all_numeric_rows_witness:
  "''Resistencia_kOhms'' \<in> set profile_headers
   \<and> map (\<lambda>r. parseFloat (row_get r ''Resistencia_kOhms'')) profile_rows
       = [Fin 1, Fin 2, Fin 3]
   \<and> ''Altitud_m'' \<in> set profile_headers
   \<and> map (\<lambda>r. parseFloat (row_get r ''Altitud_m'')) profile_rows = [Fin 10, Fin 0, Fin 30]
   \<and> altitudeProfile_all profile_headers profile_rows
       = Some [\<lparr>altitude = Fin 10, resistance = Fin 1\<rparr>,
               \<lparr>altitude = Fin 1, resistance = Fin 2\<rparr>,
               \<lparr>altitude = Fin 30, resistance = Fin 3\<rparr>]
   \<and> ''Resistencia_kOhms'' \<in> set plain_headers
   \<and> map (\<lambda>r. parseFloat (row_get r ''Resistencia_kOhms'')) plain_rows = [Fin 1, Fin 2]
   \<and> ''Altitud_m'' \<notin> set plain_headers
   \<and> altitudeProfile_all plain_headers plain_rows
       = Some [\<lparr>altitude = Fin 0, resistance = Fin 1\<rparr>,
               \<lparr>altitude = Fin 1, resistance = Fin 2\<rparr>]"
proof -
  have h1: "''Resistencia_kOhms'' \<in> set profile_headers"
    and h3: "''Altitud_m'' \<in> set profile_headers"
    by (simp_all add: profile_headers_def)
  have h2: "\<forall>r \<in> set profile_rows. \<not> isNaN (parseFloat (row_get r ''Resistencia_kOhms''))"
    and h4: "\<forall>r \<in> set profile_rows. \<not> isNaN (parseFloat (row_get r ''Altitud_m''))"
    by (simp_all add: profile_rows_def row_get_def isNaN_def parseFloat_eval)
  have g1: "''Resistencia_kOhms'' \<in> set plain_headers"
    and g3: "''Altitud_m'' \<notin> set plain_headers"
    by (simp_all add: plain_headers_def)
  have g2: "\<forall>r \<in> set plain_rows. \<not> isNaN (parseFloat (row_get r ''Resistencia_kOhms''))"
    by (simp add: plain_rows_def row_get_def isNaN_def parseFloat_eval)
  from profile_all_numeric_rows [OF h1 h2] h3 h4
  obtain ps where ps: "altitudeProfile_all profile_headers profile_rows = Some ps"
    and "length ps = length profile_rows"
    and "\<forall>i<length profile_rows. altitude (ps ! i)
           = (if parseFloat (row_get (profile_rows ! i) ''Altitud_m'') = Fin 0
              then Fin (real i) else parseFloat (row_get (profile_rows ! i) ''Altitud_m''))"
    by blast
  from profile_all_numeric_rows [OF g1 g2] g3
  obtain qs where qs: "altitudeProfile_all plain_headers plain_rows = Some qs"
    and "length qs = length plain_rows"
    and "\<forall>i<length plain_rows. altitude (qs ! i) = Fin (real i)"
    by blast
  from ps qs have "ps = [\<lparr>altitude = Fin 10, resistance = Fin 1\<rparr>,
               \<lparr>altitude = Fin 1, resistance = Fin 2\<rparr>,
               \<lparr>altitude = Fin 30, resistance = Fin 3\<rparr>]"
    and "qs = [\<lparr>altitude = Fin 0, resistance = Fin 1\<rparr>,
               \<lparr>altitude = Fin 1, resistance = Fin 2\<rparr>]"
    by (simp_all add: profile_rows_eval plain_rows_eval)
  moreover have "map (\<lambda>r. parseFloat (row_get r ''Resistencia_kOhms'')) profile_rows
      = [Fin 1, Fin 2, Fin 3]"
    and "map (\<lambda>r. parseFloat (row_get r ''Altitud_m'')) profile_rows = [Fin 10, Fin 0, Fin 30]"
    by (simp_all add: profile_rows_def row_get_def parseFloat_eval)
  moreover have "map (\<lambda>r. parseFloat (row_get r ''Resistencia_kOhms'')) plain_rows
      = [Fin 1, Fin 2]"
    by (simp add: plain_rows_def row_get_def parseFloat_eval)
  ultimately show ?thesis using ps qs h1 h3 g1 g3 by simp
qed

text \<open>
  The claim C5 as stated fails. In the three rows with the altitudes 10, 0 and 30 the
  altitude column exists, yet the pair of the second row has the altitude 1, its index.
  And where a cell does not parse, the readings of each column are filtered on their own:
  of the three rows with the altitudes \<open>abc\<close>, 20, 30 and the resistances 1, \<open>x\<close>, 3 two
  pairs are returned, the first of which joins the resistance of the first row with the
  altitude of the second.
\<close>

theorem profile_pairs_not_by_row:
  "''Altitud_m'' \<in> set profile_headers
   \<and> parseFloat (row_get (profile_rows ! 1) ''Altitud_m'') = Fin 0
   \<and> map_option (\<lambda>ps. altitude (ps ! 1)) (altitudeProfile_all profile_headers profile_rows)
       = Some (Fin 1)
   \<and> length ragged_rows = 3
   \<and> map_option length (altitudeProfile_all profile_headers ragged_rows) = Some 2
   \<and> parseFloat (row_get (ragged_rows ! 0) ''Resistencia_kOhms'') = Fin 1
   \<and> parseFloat (row_get (ragged_rows ! 1) ''Altitud_m'') = Fin 20
   \<and> map_option (\<lambda>ps. ps ! 0) (altitudeProfile_all profile_headers ragged_rows)
       = Some \<lparr>altitude = Fin 20, resistance = Fin 1\<rparr>"
  by (simp add: profile_rows_eval ragged_rows_eval)
    (simp add: profile_headers_def profile_rows_def ragged_rows_def row_get_def parseFloat_eval)

section \<open>Descriptive statistics of finite values\<close>

lemma insertNumeric_Fin:
  "insertNumeric (Fin a) (map Fin ys) = map Fin (insort a ys)"
  by (induction ys) (auto simp: js_gt_def js_sub_def)

lemma sortNumeric_Fin: "sortNumeric (map Fin rs) = map Fin (sort rs)"
  by (induction rs) (simp_all add: sortNumeric_def insertNumeric_Fin)

lemma sum_Fin:
  "foldl (\<lambda>acc val. js_add acc val) (Fin s) (map Fin rs) = Fin (s + sum_list rs)"
  by (induction rs arbitrary: s) (simp_all add: add.assoc)

lemma squares_Fin:
  "foldl (\<lambda>acc val. js_add acc (js_pow2 (js_sub val (Fin m)))) (Fin s) (map Fin rs)
     = Fin (s + (\<Sum>r\<leftarrow>rs. (r - m) ^ 2))"
  by (induction rs arbitrary: s) (simp_all add: add.assoc js_sub_def)

lemma sort_nth_0:
  assumes "rs \<noteq> []"
  shows "sort rs ! 0 = Min (set rs)"
proof -
  have s: "sorted (sort rs)" by simp
  have l: "0 < length (sort rs)" using assms by simp
  have "Min (set rs) = sort rs ! 0"
  proof (rule Min_eqI)
    show "finite (set rs)" by simp
    show "sort rs ! 0 \<in> set rs" using l nth_mem [of 0 "sort rs"] by simp
    fix y assume "y \<in> set rs"
    then have "y \<in> set (sort rs)" by simp
    then obtain k where "k < length (sort rs)" "sort rs ! k = y"
      using in_set_conv_nth [of y "sort rs"] by blast
    with s show "sort rs ! 0 \<le> y" using sorted_nth_mono [of "sort rs" 0 k] by auto
  qed
  then show ?thesis by simp
qed

lemma sort_nth_last:
  assumes "rs \<noteq> []"
  shows "sort rs ! (length rs - 1) = Max (set rs)"
proof -
  have s: "sorted (sort rs)" by simp
  have l: "length rs - 1 < length (sort rs)" using assms by simp
  have "Max (set rs) = sort rs ! (length rs - 1)"
  proof (rule Max_eqI)
    show "finite (set rs)" by simp
    show "sort rs ! (length rs - 1) \<in> set rs" using l nth_mem [of "length rs - 1" "sort rs"] by simp
    fix y assume "y \<in> set rs"
    then have "y \<in> set (sort rs)" by simp
    then obtain k where "k < length (sort rs)" "sort rs ! k = y"
      using in_set_conv_nth [of y "sort rs"] by blast
    with s show "y \<le> sort rs ! (length rs - 1)"
      using sorted_nth_mono [of "sort rs" k "length rs - 1"] by auto
  qed
  then show ?thesis by simp
qed

lemma arrayAt_nth: "k < length xs \<Longrightarrow> arrayAt xs (int k) = Num (xs ! k)"
  by (simp add: arrayAt_def)

text \<open>
  C9, as the code has it. For every non-empty sequence of finite numbers the statistics are
  finite numbers with \<open>min \<le> median \<le> max\<close> and \<open>stdDev \<ge> 0\<close>; the minimum and the
  maximum are the least and the greatest value, the median is the element at index
  \<open>floor(n/2)\<close> of the ascending-sorted sequence (no averaged midpoint), and the standard
  deviation is the square root of the sum of the squared deviations from the mean divided
  by \<open>n\<close> (the population standard deviation).
\<close>

theorem calculateStats_finite:
  assumes ne: "rs \<noteq> []"
  shows "\<exists>mn md mx sd.
           stat_min (calculateStats (map Fin rs)) = Num (Fin mn)
           \<and> median (calculateStats (map Fin rs)) = Num (Fin md)
           \<and> stat_max (calculateStats (map Fin rs)) = Num (Fin mx)
           \<and> stdDev (calculateStats (map Fin rs)) = Fin sd
           \<and> mn \<le> md \<and> md \<le> mx \<and> 0 \<le> sd
           \<and> mn = Min (set rs) \<and> mx = Max (set rs)
           \<and> md = sort rs ! (length rs div 2)
           \<and> sd = sqrt ((\<Sum>r\<leftarrow>rs. (r - sum_list rs / real (length rs)) ^ 2)
                         / real (length rs))"
proof -
  let ?n = "length rs"
  let ?m = "sum_list rs / real ?n"
  let ?v = "(\<Sum>r\<leftarrow>rs. (r - ?m) ^ 2) / real ?n"
  let ?s = "map Fin (sort rs)"
  from ne have n: "0 < ?n" by simp
  have len: "length ?s = ?n" by simp
  have mean: "js_div_len (foldl (\<lambda>acc val. js_add acc val) (Fin 0) (map Fin rs)) ?n = Fin ?m"
    using n by (simp add: sum_Fin)
  have var: "js_div_len (foldl (\<lambda>acc val. js_add acc (js_pow2 (js_sub val (Fin ?m)))) (Fin 0)
      (map Fin rs)) ?n = Fin ?v"
    using n by (simp add: squares_Fin)
  have v0: "0 \<le> ?v" by (intro divide_nonneg_nonneg sum_list_nonneg) auto
  have sd: "stdDev (calculateStats (map Fin rs)) = Fin (sqrt ?v)"
    using v0 by (simp add: calculateStats_def Let_def mean var)
  have "stat_min (calculateStats (map Fin rs)) = arrayAt ?s (int 0)"
    by (simp add: calculateStats_def Let_def sortNumeric_Fin)
  also have "\<dots> = Num (?s ! 0)" using n by (intro arrayAt_nth) simp
  finally have mn: "stat_min (calculateStats (map Fin rs)) = Num (Fin (sort rs ! 0))"
    using n by simp
  have pred: "int ?n - 1 = int (?n - 1)" using n by linarith
  have "stat_max (calculateStats (map Fin rs)) = arrayAt ?s (int ?n - 1)"
    by (simp add: calculateStats_def Let_def sortNumeric_Fin)
  also have "\<dots> = arrayAt ?s (int (?n - 1))" by (simp only: pred)
  also have "\<dots> = Num (?s ! (?n - 1))" using n by (intro arrayAt_nth) simp
  finally have mx: "stat_max (calculateStats (map Fin rs)) = Num (Fin (sort rs ! (?n - 1)))"
    using n by simp
  have "median (calculateStats (map Fin rs)) = arrayAt ?s (int (?n div 2))"
    by (simp add: calculateStats_def Let_def sortNumeric_Fin)
  also have "\<dots> = Num (?s ! (?n div 2))" using n by (intro arrayAt_nth) simp
  finally have md: "median (calculateStats (map Fin rs)) = Num (Fin (sort rs ! (?n div 2)))"
    using n by simp
  have s: "sorted (sort rs)" by simp
  have le1: "sort rs ! 0 \<le> sort rs ! (?n div 2)"
    using s n by (intro sorted_nth_mono) auto
  have le2: "sort rs ! (?n div 2) \<le> sort rs ! (?n - 1)"
    using s n by (intro sorted_nth_mono) auto
  show ?thesis
    using sd mn mx md le1 le2 v0 sort_nth_0 [OF ne] sort_nth_last [OF ne] by simp
qed

theorem calculateStats_finite_witness:
  "[4, 1, 3, 2 :: real] \<noteq> []
   \<and> stat_min (calculateStats (map Fin [4, 1, 3, 2])) = Num (Fin 1)
   \<and> median (calculateStats (map Fin [4, 1, 3, 2])) = Num (Fin 3)
   \<and> stat_max (calculateStats (map Fin [4, 1, 3, 2])) = Num (Fin 4)
   \<and> stdDev (calculateStats (map Fin [4, 1, 3, 2])) = Fin (sqrt (5 / 4))"
proof -
  have ne: "[4, 1, 3, 2 :: real] \<noteq> []" by simp
  from calculateStats_finite [OF ne] obtain mn md mx sd where
    f: "stat_min (calculateStats (map Fin [4, 1, 3, 2])) = Num (Fin mn)"
      "median (calculateStats (map Fin [4, 1, 3, 2])) = Num (Fin md)"
      "stat_max (calculateStats (map Fin [4, 1, 3, 2])) = Num (Fin mx)"
      "stdDev (calculateStats (map Fin [4, 1, 3, 2])) = Fin sd"
    and mn: "mn = Min (set [4, 1, 3, 2])"
    and mx: "mx = Max (set [4, 1, 3, 2])"
    and md: "md = sort [4, 1, 3, 2] ! (length [4, 1, 3, 2 :: real] div 2)"
    and sd: "sd = sqrt ((\<Sum>r\<leftarrow>[4, 1, 3, 2]. (r - sum_list [4, 1, 3, 2] / real (length [4, 1, 3, 2 :: real])) ^ 2)
                         / real (length [4, 1, 3, 2 :: real]))"
    by blast
  have "sort [4, 1, 3, 2 :: real] = [1, 2, 3, 4]" by simp
  with md have "md = 3" by simp
  moreover from mn have "mn = 1" by simp
  moreover from mx have "mx = 4" by simp
  moreover from sd have "sd = sqrt (5 / 4)" by (simp add: power2_eq_square)
  ultimately show ?thesis using f by simp
qed

text \<open>
  The claim C9 as stated fails on a sequence with an infinite value, which is a number of
  the language and passes the \<open>!isNaN\<close> filter of the callers: for the single reading
  \<open>Infinity\<close> the mean is \<open>Infinity\<close>, the deviation \<open>Infinity - Infinity\<close> is \<open>NaN\<close>, and so
  is the standard deviation, which is not \<open>\<ge> 0\<close>.
\<close>

theorem calculateStats_infinite_input:
  "stdDev (calculateStats [PosInf]) = NaN
   \<and> \<not> js_ge (stdDev (calculateStats [PosInf])) (Fin 0)"
  by (simp add: calculateStats_def Let_def js_sub_def js_ge_def)

end
